theory Spec2Isabelle
  imports Complex_Main "HOL-Library.Word"
begin

unbundle bit_operations_syntax

section \<open>JavaScript values used by the fiscal-document pipeline\<close>

text \<open>
  The sources are TypeScript running in a browser. The model keeps the values the
  code handles:
  \<^item> a string is a \<^typ>\<open>string\<close>; a character stands for one UTF-16 code unit in the
    range U+0000..U+00FF, so \<open>length\<close> is the JavaScript \<open>length\<close>;
  \<^item> a \<open>number\<close> is the exact rational value of a finite double, or one of the three
    non-finite doubles; negative zero is \<open>Finite 0\<close> (the code only prints numbers, and
    both zeros print alike);
  \<^item> an exception is a value of type \<open>error\<close>, and a function that can throw (or an
    \<open>async\<close> function whose promise can reject) returns \<open>error + 'a\<close>.
\<close>

datatype error = Error string | RangeError string | TypeError string | SyntaxError string

datatype number = Finite rat | NaN | PosInfinity | NegInfinity

text \<open>
  What the host decides and the code cannot see: the time zone of the machine
  (\<open>LocalTZA\<close> of ECMAScript, the offset in milliseconds of local time at a UTC time
  value), the digits \<open>Number::toString\<close> prints for a number that is not an integer of
  magnitude below \<open>10^21\<close> (shortest round-trip digits of the double, which the rational
  value alone does not give), and the locale data behind
  \<open>new Date(s).toLocaleTimeString('es-CO', { hour12: false })\<close>.
\<close>

record host =
  localTZA :: "int \<Rightarrow> int"
  numberToStringOther :: "rat \<Rightarrow> string"
  toLocaleTimeString_esCO :: "string \<Rightarrow> string"

subsection \<open>Strings\<close>

definition digitChar :: "nat \<Rightarrow> char" where
  "digitChar d = ''0123456789abcdef'' ! d"

definition isDigit :: "char \<Rightarrow> bool" where
  \<comment> \<open>the regular-expression class \<open>\d\<close> (no \<open>u\<close> flag): ASCII digits only\<close>
  "isDigit c = (c \<in> set ''0123456789'')"

definition padStart :: "nat \<Rightarrow> char \<Rightarrow> string \<Rightarrow> string" where
  \<comment> \<open>\<open>s.padStart(n, c)\<close> for a one-character filler\<close>
  "padStart n c s = (if n \<le> length s then s else replicate (n - length s) c @ s)"

fun join :: "string \<Rightarrow> string list \<Rightarrow> string" where
  \<comment> \<open>\<open>xs.join(sep)\<close>\<close>
  "join sep [] = []"
| "join sep [x] = x"
| "join sep (x # y # ys) = x @ sep @ join sep (y # ys)"

fun replaceDotsDashes :: "string \<Rightarrow> string" where
  \<comment> \<open>\<open>s.replace(/[.-]/g, '')\<close>: every match is removed\<close>
  "replaceDotsDashes [] = []"
| "replaceDotsDashes (c # cs) =
     (if c = CHR ''.'' \<or> c = CHR ''-'' then replaceDotsDashes cs else c # replaceDotsDashes cs)"

fun replaceFinalDigit :: "string \<Rightarrow> string" where
  \<comment> \<open>\<open>s.replace(/\d$/, '')\<close>: the pattern matches at position i when s[i] is a digit
      and i + 1 is the end of the input; the first (and only) match is removed\<close>
  "replaceFinalDigit [] = []"
| "replaceFinalDigit [c] = (if isDigit c then [] else [c])"
| "replaceFinalDigit (c # d # cs) = c # replaceFinalDigit (d # cs)"

definition upperChar :: "char \<Rightarrow> char" where
  "upperChar c = (case map_of (zip ''abcdefghijklmnopqrstuvwxyz'' ''ABCDEFGHIJKLMNOPQRSTUVWXYZ'') c of
                    None \<Rightarrow> c | Some u \<Rightarrow> u)"

definition toUpperCase :: "string \<Rightarrow> string" where
  \<comment> \<open>\<open>s.toUpperCase()\<close> on ASCII text (the code applies it to hexadecimal digits)\<close>
  "toUpperCase s = map upperChar s"

subsection \<open>Numbers\<close>

function natToStringRadix :: "nat \<Rightarrow> nat \<Rightarrow> string" where
  "natToStringRadix r n =
     (if r < 2 \<or> n < r then [digitChar n]
      else natToStringRadix r (n div r) @ [digitChar (n mod r)])"
  by pat_completeness auto
termination
  by (relation "measure snd") auto

declare natToStringRadix.simps [simp del]

definition natToString :: "nat \<Rightarrow> string" where
  "natToString n = natToStringRadix 10 n"

definition intToString :: "int \<Rightarrow> string" where
  "intToString i = (if i < 0 then CHR ''-'' # natToString (nat (- i)) else natToString (nat i))"

fun numberToString :: "host \<Rightarrow> number \<Rightarrow> string" where
  \<comment> \<open>\<open>String(x)\<close>, \<open>x.toString()\<close> and \<open>`${x}`\<close>\<close>
  "numberToString h NaN = ''NaN''"
| "numberToString h PosInfinity = ''Infinity''"
| "numberToString h NegInfinity = ''-Infinity''"
| "numberToString h (Finite q) =
     (if of_int \<lfloor>q\<rfloor> = q \<and> \<bar>q\<bar> < 10 ^ 21 then intToString \<lfloor>q\<rfloor>
      else numberToStringOther h q)"

fun Math_round :: "number \<Rightarrow> number" where
  \<comment> \<open>the nearest integer, a tie going towards plus infinity\<close>
  "Math_round (Finite q) = Finite (of_int \<lfloor>q + 1 / 2\<rfloor>)"
| "Math_round NaN = NaN"
| "Math_round PosInfinity = PosInfinity"
| "Math_round NegInfinity = NegInfinity"

fun numAdd :: "number \<Rightarrow> number \<Rightarrow> number" where
  \<comment> \<open>\<open>x + y\<close>; exact on the integers the code adds (a month index and 1)\<close>
  "numAdd (Finite a) (Finite b) = Finite (a + b)"
| "numAdd NaN y = NaN"
| "numAdd x NaN = NaN"
| "numAdd PosInfinity NegInfinity = NaN"
| "numAdd NegInfinity PosInfinity = NaN"
| "numAdd PosInfinity y = PosInfinity"
| "numAdd NegInfinity y = NegInfinity"
| "numAdd x PosInfinity = PosInfinity"
| "numAdd x NegInfinity = NegInfinity"

definition toFixed :: "host \<Rightarrow> nat \<Rightarrow> number \<Rightarrow> string" where
  \<comment> \<open>\<open>x.toFixed(f)\<close> for 0 \<le> f \<le> 100 (the code passes 2): a non-finite number and a
      magnitude from \<open>10^21\<close> on print as \<open>String\<close> does; otherwise the integer n nearest
      to \<open>x * 10^f\<close> (the larger one on a tie) is printed with f digits after the point\<close>
  "toFixed h f x =
     (case x of
        Finite q \<Rightarrow>
          (let s = (if q < 0 then ''-'' else '''');
               a = \<bar>q\<bar>
           in if 10 ^ 21 \<le> a then s @ numberToString h (Finite a)
              else
                let n = nat \<lfloor>a * 10 ^ f + 1 / 2\<rfloor>;
                    m = padStart (f + 1) (CHR ''0'') (natToString n);
                    k = length m
                in if f = 0 then s @ m
                   else s @ take (k - f) m @ ''.'' @ drop (k - f) m)
      | _ \<Rightarrow> numberToString h x)"

subsection \<open>Dates\<close>

text \<open>
  A \<open>Date\<close> holds a time value: milliseconds since 1970-01-01T00:00:00Z, or NaN (an
  invalid date). The calendar functions are those of ECMAScript (section "Time Values
  and Time Range"); \<open>YearFromTime\<close> is computed from an estimate that is off by at most
  one year, and \<open>YearFromTime_spec\<close> below shows that it is the year ECMAScript defines.
\<close>

datatype Date = TimeValue int | InvalidDate

definition msPerDay :: int where
  "msPerDay = 86400000"

definition Day :: "int \<Rightarrow> int" where
  "Day t = t div msPerDay"

definition DaysInYear :: "int \<Rightarrow> int" where
  "DaysInYear y = (if y mod 4 \<noteq> 0 then 365 else if y mod 100 \<noteq> 0 then 366
                   else if y mod 400 \<noteq> 0 then 365 else 366)"

definition DayFromYear :: "int \<Rightarrow> int" where
  "DayFromYear y =
     365 * (y - 1970) + (y - 1969) div 4 - (y - 1901) div 100 + (y - 1601) div 400"

definition YearFromTime :: "int \<Rightarrow> int" where
  "YearFromTime t =
     (let d = Day t; y0 = 1970 + (d * 400) div 146097
      in if d < DayFromYear y0 then y0 - 1
         else if DayFromYear (y0 + 1) \<le> d then y0 + 1 else y0)"

definition InLeapYear :: "int \<Rightarrow> int" where
  "InLeapYear t = (if DaysInYear (YearFromTime t) = 366 then 1 else 0)"

definition DayWithinYear :: "int \<Rightarrow> int" where
  "DayWithinYear t = Day t - DayFromYear (YearFromTime t)"

definition MonthFromTime :: "int \<Rightarrow> int" where
  "MonthFromTime t =
     (let d = DayWithinYear t; l = InLeapYear t
      in if d < 31 then 0 else if d < 59 + l then 1 else if d < 90 + l then 2
         else if d < 120 + l then 3 else if d < 151 + l then 4 else if d < 181 + l then 5
         else if d < 212 + l then 6 else if d < 243 + l then 7 else if d < 273 + l then 8
         else if d < 304 + l then 9 else if d < 334 + l then 10 else 11)"

definition DateFromTime :: "int \<Rightarrow> int" where
  "DateFromTime t =
     (let d = DayWithinYear t; l = InLeapYear t; m = MonthFromTime t
      in if m = 0 then d + 1 else if m = 1 then d - 30 else if m = 2 then d - 58 - l
         else if m = 3 then d - 89 - l else if m = 4 then d - 119 - l
         else if m = 5 then d - 150 - l else if m = 6 then d - 180 - l
         else if m = 7 then d - 211 - l else if m = 8 then d - 242 - l
         else if m = 9 then d - 272 - l else if m = 10 then d - 303 - l else d - 333 - l)"

definition HourFromTime :: "int \<Rightarrow> int" where
  "HourFromTime t = (t div 3600000) mod 24"

definition MinFromTime :: "int \<Rightarrow> int" where
  "MinFromTime t = (t div 60000) mod 60"

definition SecFromTime :: "int \<Rightarrow> int" where
  "SecFromTime t = (t div 1000) mod 60"

definition msFromTime :: "int \<Rightarrow> int" where
  "msFromTime t = t mod 1000"

definition LocalTime :: "host \<Rightarrow> int \<Rightarrow> int" where
  "LocalTime h t = t + localTZA h t"

fun getFullYear :: "host \<Rightarrow> Date \<Rightarrow> number" where
  "getFullYear h InvalidDate = NaN"
| "getFullYear h (TimeValue t) = Finite (of_int (YearFromTime (LocalTime h t)))"

fun getMonth :: "host \<Rightarrow> Date \<Rightarrow> number" where
  "getMonth h InvalidDate = NaN"
| "getMonth h (TimeValue t) = Finite (of_int (MonthFromTime (LocalTime h t)))"

fun getDate :: "host \<Rightarrow> Date \<Rightarrow> number" where
  "getDate h InvalidDate = NaN"
| "getDate h (TimeValue t) = Finite (of_int (DateFromTime (LocalTime h t)))"

fun getHours :: "host \<Rightarrow> Date \<Rightarrow> number" where
  "getHours h InvalidDate = NaN"
| "getHours h (TimeValue t) = Finite (of_int (HourFromTime (LocalTime h t)))"

fun getMinutes :: "host \<Rightarrow> Date \<Rightarrow> number" where
  "getMinutes h InvalidDate = NaN"
| "getMinutes h (TimeValue t) = Finite (of_int (MinFromTime (LocalTime h t)))"

fun getSeconds :: "host \<Rightarrow> Date \<Rightarrow> number" where
  "getSeconds h InvalidDate = NaN"
| "getSeconds h (TimeValue t) = Finite (of_int (SecFromTime (LocalTime h t)))"

definition isoYear :: "int \<Rightarrow> string" where
  \<comment> \<open>four digits for the years 0 to 9999, a sign and six digits otherwise\<close>
  "isoYear y =
     (if 0 \<le> y \<and> y \<le> 9999 then padStart 4 (CHR ''0'') (natToString (nat y))
      else (if y < 0 then ''-'' else ''+'') @ padStart 6 (CHR ''0'') (natToString (nat \<bar>y\<bar>)))"

definition pad2 :: "int \<Rightarrow> string" where
  "pad2 v = padStart 2 (CHR ''0'') (natToString (nat v))"

definition isoString :: "int \<Rightarrow> string" where
  \<comment> \<open>the UTC fields of a time value as \<open>YYYY-MM-DDTHH:mm:ss.sssZ\<close>\<close>
  "isoString t =
     isoYear (YearFromTime t) @ ''-'' @ pad2 (MonthFromTime t + 1) @ ''-''
       @ pad2 (DateFromTime t) @ ''T'' @ pad2 (HourFromTime t) @ '':''
       @ pad2 (MinFromTime t) @ '':'' @ pad2 (SecFromTime t) @ ''.''
       @ padStart 3 (CHR ''0'') (natToString (nat (msFromTime t))) @ ''Z''"

fun toISOString :: "Date \<Rightarrow> error + string" where
  "toISOString InvalidDate = Inl (RangeError ''Invalid time value'')"
| "toISOString (TimeValue t) = Inr (isoString t)"

section \<open>The platform's SHA-384 and UTF-8 encoder\<close>

text \<open>
  \<open>crypto.subtle.digest('SHA-384', data)\<close> is SHA-384 of FIPS 180-4, on 64-bit words.
\<close>

type_synonym byte = "8 word"
type_synonym w64 = "64 word"

definition K512 :: "w64 list" where
  \<comment> \<open>the eighty round constants, each as its high and low 32 bits\<close>
  "K512 = map (\<lambda>(hi, lo). push_bit 32 hi OR lo) [
     (0x428a2f98, 0xd728ae22), (0x71374491, 0x23ef65cd), (0xb5c0fbcf, 0xec4d3b2f),
     (0xe9b5dba5, 0x8189dbbc), (0x3956c25b, 0xf348b538), (0x59f111f1, 0xb605d019),
     (0x923f82a4, 0xaf194f9b), (0xab1c5ed5, 0xda6d8118), (0xd807aa98, 0xa3030242),
     (0x12835b01, 0x45706fbe), (0x243185be, 0x4ee4b28c), (0x550c7dc3, 0xd5ffb4e2),
     (0x72be5d74, 0xf27b896f), (0x80deb1fe, 0x3b1696b1), (0x9bdc06a7, 0x25c71235),
     (0xc19bf174, 0xcf692694), (0xe49b69c1, 0x9ef14ad2), (0xefbe4786, 0x384f25e3),
     (0x0fc19dc6, 0x8b8cd5b5), (0x240ca1cc, 0x77ac9c65), (0x2de92c6f, 0x592b0275),
     (0x4a7484aa, 0x6ea6e483), (0x5cb0a9dc, 0xbd41fbd4), (0x76f988da, 0x831153b5),
     (0x983e5152, 0xee66dfab), (0xa831c66d, 0x2db43210), (0xb00327c8, 0x98fb213f),
     (0xbf597fc7, 0xbeef0ee4), (0xc6e00bf3, 0x3da88fc2), (0xd5a79147, 0x930aa725),
     (0x06ca6351, 0xe003826f), (0x14292967, 0x0a0e6e70), (0x27b70a85, 0x46d22ffc),
     (0x2e1b2138, 0x5c26c926), (0x4d2c6dfc, 0x5ac42aed), (0x53380d13, 0x9d95b3df),
     (0x650a7354, 0x8baf63de), (0x766a0abb, 0x3c77b2a8), (0x81c2c92e, 0x47edaee6),
     (0x92722c85, 0x1482353b), (0xa2bfe8a1, 0x4cf10364), (0xa81a664b, 0xbc423001),
     (0xc24b8b70, 0xd0f89791), (0xc76c51a3, 0x0654be30), (0xd192e819, 0xd6ef5218),
     (0xd6990624, 0x5565a910), (0xf40e3585, 0x5771202a), (0x106aa070, 0x32bbd1b8),
     (0x19a4c116, 0xb8d2d0c8), (0x1e376c08, 0x5141ab53), (0x2748774c, 0xdf8eeb99),
     (0x34b0bcb5, 0xe19b48a8), (0x391c0cb3, 0xc5c95a63), (0x4ed8aa4a, 0xe3418acb),
     (0x5b9cca4f, 0x7763e373), (0x682e6ff3, 0xd6b2b8a3), (0x748f82ee, 0x5defb2fc),
     (0x78a5636f, 0x43172f60), (0x84c87814, 0xa1f0ab72), (0x8cc70208, 0x1a6439ec),
     (0x90befffa, 0x23631e28), (0xa4506ceb, 0xde82bde9), (0xbef9a3f7, 0xb2c67915),
     (0xc67178f2, 0xe372532b), (0xca273ece, 0xea26619c), (0xd186b8c7, 0x21c0c207),
     (0xeada7dd6, 0xcde0eb1e), (0xf57d4f7f, 0xee6ed178), (0x06f067aa, 0x72176fba),
     (0x0a637dc5, 0xa2c898a6), (0x113f9804, 0xbef90dae), (0x1b710b35, 0x131c471b),
     (0x28db77f5, 0x23047d84), (0x32caab7b, 0x40c72493), (0x3c9ebe0a, 0x15c9bebc),
     (0x431d67c4, 0x9c100d4c), (0x4cc5d4be, 0xcb3e42b6), (0x597f299c, 0xfc657e2a),
     (0x5fcb6fab, 0x3ad6faec), (0x6c44198c, 0x4a475817)]"

record hashState =
  hA :: w64
  hB :: w64
  hC :: w64
  hD :: w64
  hE :: w64
  hF :: w64
  hG :: w64
  hH :: w64

definition H384 :: hashState where
  "H384 = \<lparr>hA = 0xcbbb9d5dc1059ed8, hB = 0x629a292a367cd507, hC = 0x9159015a3070dd17,
            hD = 0x152fecd8f70e5939, hE = 0x67332667ffc00b31, hF = 0x8eb44a8768581511,
            hG = 0xdb0c2e0d64f98fa7, hH = 0x47b5481dbefa4fa4\<rparr>"

definition Ch :: "w64 \<Rightarrow> w64 \<Rightarrow> w64 \<Rightarrow> w64" where
  "Ch x y z = (x AND y) XOR (NOT x AND z)"

definition Maj :: "w64 \<Rightarrow> w64 \<Rightarrow> w64 \<Rightarrow> w64" where
  "Maj x y z = (x AND y) XOR (x AND z) XOR (y AND z)"

definition bigSigma0 :: "w64 \<Rightarrow> w64" where
  "bigSigma0 x = word_rotr 28 x XOR word_rotr 34 x XOR word_rotr 39 x"

definition bigSigma1 :: "w64 \<Rightarrow> w64" where
  "bigSigma1 x = word_rotr 14 x XOR word_rotr 18 x XOR word_rotr 41 x"

definition smallSigma0 :: "w64 \<Rightarrow> w64" where
  "smallSigma0 x = word_rotr 1 x XOR word_rotr 8 x XOR drop_bit 7 x"

definition smallSigma1 :: "w64 \<Rightarrow> w64" where
  "smallSigma1 x = word_rotr 19 x XOR word_rotr 61 x XOR drop_bit 6 x"

fun natToBytesBE :: "nat \<Rightarrow> nat \<Rightarrow> byte list" where
  "natToBytesBE 0 v = []"
| "natToBytesBE (Suc n) v = natToBytesBE n (v div 256) @ [of_nat (v mod 256)]"

definition shaPad :: "byte list \<Rightarrow> byte list" where
  "shaPad m = m @ [0x80] @ replicate ((239 - length m mod 128) mod 128) 0
                @ natToBytesBE 16 (8 * length m)"

definition wordOfBytes :: "byte list \<Rightarrow> w64" where
  "wordOfBytes bs = foldl (\<lambda>acc b. push_bit 8 acc OR ucast b) 0 bs"

definition bytesOfWord :: "w64 \<Rightarrow> byte list" where
  "bytesOfWord w = map (\<lambda>i. ucast (drop_bit (8 * i) w)) [7, 6, 5, 4, 3, 2, 1, 0]"

function chunks :: "nat \<Rightarrow> 'a list \<Rightarrow> 'a list list" where
  "chunks n xs = (if n = 0 \<or> xs = [] then [] else take n xs # chunks n (drop n xs))"
  by pat_completeness auto
termination
  by (relation "measure (\<lambda>(n, xs). length xs)") auto
declare chunks.simps [simp del]

fun schedule :: "nat \<Rightarrow> w64 list \<Rightarrow> w64 list" where
  "schedule 0 w = w"
| "schedule (Suc n) w =
     (let t = length w in
      schedule n (w @ [smallSigma1 (w ! (t - 2)) + w ! (t - 7) + smallSigma0 (w ! (t - 15)) + w ! (t - 16)]))"

definition shaRound :: "hashState \<Rightarrow> w64 \<times> w64 \<Rightarrow> hashState" where
  "shaRound s kw =
     (let t1 = hH s + bigSigma1 (hE s) + Ch (hE s) (hF s) (hG s) + fst kw + snd kw;
          t2 = bigSigma0 (hA s) + Maj (hA s) (hB s) (hC s)
      in \<lparr>hA = t1 + t2, hB = hA s, hC = hB s, hD = hC s,
          hE = hD s + t1, hF = hE s, hG = hF s, hH = hG s\<rparr>)"

definition compress :: "hashState \<Rightarrow> byte list \<Rightarrow> hashState" where
  "compress h block =
     (let w = schedule 64 (map wordOfBytes (chunks 8 block));
          s = foldl shaRound h (zip K512 w)
      in \<lparr>hA = hA h + hA s, hB = hB h + hB s, hC = hC h + hC s, hD = hD h + hD s,
          hE = hE h + hE s, hF = hF h + hF s, hG = hG h + hG s, hH = hH h + hH s\<rparr>)"

definition sha384 :: "byte list \<Rightarrow> byte list" where
  \<comment> \<open>\<open>crypto.subtle.digest('SHA-384', data)\<close>\<close>
  "sha384 m =
     (let h = foldl compress H384 (chunks 128 (shaPad m))
      in concat (map bytesOfWord [hA h, hB h, hC h, hD h, hE h, hF h]))"

definition utf8 :: "string \<Rightarrow> byte list" where
  \<comment> \<open>\<open>new TextEncoder().encode(s)\<close>: one byte below U+0080, two bytes up to U+00FF\<close>
  "utf8 s = concat (map (\<lambda>c. let n = (of_char c :: nat) in
                 if n < 128 then [of_nat n]
                 else [of_nat (192 + n div 64), of_nat (128 + n mod 64)]) s)"

section \<open>The application's data (the fields the code reads)\<close>

record CUFEData =
  cufe :: string
  timestamp :: string

record InvoiceItem =
  descripcion :: string

record Invoice =
  id' :: string
  status :: string
  issueDate :: string
  emissionTimestamp :: "string option"
  clientNit :: string
  clientSegment :: string
  subtotal :: number
  taxAmount :: number
  total' :: number
  cufe :: "string option"
  items :: "InvoiceItem list"
  pdfGeneratedAt :: "string option"

record CompanyInfo =
  nit :: string

record PDFTemplate =
  segment :: string
  companyInfo :: CompanyInfo
  technicalKey :: "string option"

record Shipment =
  id' :: string
  estado :: string

section \<open>lib/cufeGenerator.ts\<close>

text \<open>
  The local constants of \<open>generateCUFE\<close>, one definition each, under their names in the
  source (the parameter \<open>emissionTimestamp\<close> is \<open>emissionTs\<close>: the invoice has a field of
  that name).
\<close>

definition fechaHora :: "host \<Rightarrow> Date \<Rightarrow> string" where
  "fechaHora h emissionTs =
     (let year = getFullYear h emissionTs;
          month = padStart 2 (CHR ''0'')
                    (numberToString h (numAdd (getMonth h emissionTs) (Finite 1)));
          day = padStart 2 (CHR ''0'') (numberToString h (getDate h emissionTs));
          hours = padStart 2 (CHR ''0'') (numberToString h (getHours h emissionTs));
          minutes = padStart 2 (CHR ''0'') (numberToString h (getMinutes h emissionTs));
          seconds = padStart 2 (CHR ''0'') (numberToString h (getSeconds h emissionTs))
      in numberToString h year @ month @ day @ hours @ minutes @ seconds)"

definition valorTotal :: "host \<Rightarrow> Invoice \<Rightarrow> string" where
  "valorTotal h invoice =
     padStart 15 (CHR ''0'') (numberToString h (Math_round (total' invoice)))"

definition valorImpuesto :: "host \<Rightarrow> Invoice \<Rightarrow> string" where
  "valorImpuesto h invoice =
     padStart 15 (CHR ''0'') (numberToString h (Math_round (taxAmount invoice)))"

definition valorSubtotal :: "host \<Rightarrow> Invoice \<Rightarrow> string" where
  \<comment> \<open>computed by the source and never used\<close>
  "valorSubtotal h invoice =
     padStart 15 (CHR ''0'') (numberToString h (Math_round (subtotal invoice)))"

definition nitEmisor :: "PDFTemplate \<Rightarrow> string" where
  "nitEmisor template = replaceFinalDigit (replaceDotsDashes (nit (companyInfo template)))"

definition nitAdquirente :: "Invoice \<Rightarrow> string" where
  "nitAdquirente invoice = replaceFinalDigit (replaceDotsDashes (clientNit invoice))"

definition claveTecnica :: "PDFTemplate \<Rightarrow> string" where
  \<comment> \<open>\<open>template.technicalKey || '...'\<close>: an absent key and the empty string are falsy\<close>
  "claveTecnica template =
     (case technicalKey template of
        None \<Rightarrow> ''CourierSync2025ElectronicInvoicing''
      | Some k \<Rightarrow> if k = [] then ''CourierSync2025ElectronicInvoicing'' else k)"

definition datosParaCUFE :: "host \<Rightarrow> Invoice \<Rightarrow> PDFTemplate \<Rightarrow> Date \<Rightarrow> string" where
  "datosParaCUFE h invoice template emissionTs =
     join [] [
       Invoice.id' invoice,
       fechaHora h emissionTs,
       valorTotal h invoice,
       ''01'',
       valorImpuesto h invoice,
       ''04'',
       ''000000000000000'',
       ''03'',
       ''000000000000000'',
       valorTotal h invoice,
       nitEmisor template,
       ''31'',
       nitAdquirente invoice,
       claveTecnica template]"

definition hexByte :: "byte \<Rightarrow> string" where
  \<comment> \<open>\<open>b.toString(16).padStart(2, '0')\<close>\<close>
  "hexByte b = padStart 2 (CHR ''0'') (natToStringRadix 16 (unat b))"

definition generateCUFE :: "host \<Rightarrow> Invoice \<Rightarrow> PDFTemplate \<Rightarrow> Date \<Rightarrow> error + CUFEData" where
  "generateCUFE h invoice template emissionTs =
     (let data = utf8 (datosParaCUFE h invoice template emissionTs);
          hashArray = sha384 data;
          hash = toUpperCase (join [] (map hexByte hashArray))
      in case toISOString emissionTs of
           Inl e \<Rightarrow> Inl e
         | Inr s \<Rightarrow> Inr \<lparr>CUFEData.cufe = hash, timestamp = s\<rparr>)"

definition isCUFEUnique :: "string \<Rightarrow> Invoice list \<Rightarrow> bool" where
  "isCUFEUnique c existingInvoices =
     (\<not> list_ex (\<lambda>inv. Invoice.cufe inv = Some c) existingInvoices)"

section \<open>lib/qrGenerator.ts\<close>

text \<open>
  The \<open>qrcode\<close> package is a library: its two entry points are parameters, already
  applied to the options the source passes (error correction M, PNG, width 300,
  margin 2). A run returns the result together with the texts handed to the library, in
  order, so that "before rendering" can be stated.
\<close>

record QRCode =
  toDataURL :: "string \<Rightarrow> error + string"
  toBuffer :: "string \<Rightarrow> error + byte list"

definition o_acute :: string where
  "o_acute = [CHR 0xF3]"

definition generateInvoiceQR ::
  "host \<Rightarrow> QRCode \<Rightarrow> Invoice \<Rightarrow> PDFTemplate \<Rightarrow> (error + string) \<times> string list" where
  "generateInvoiceQR h qr invoice template =
     (if Invoice.cufe invoice = None \<or> Invoice.cufe invoice = Some []
      then (Inl (Error ''La factura debe tener un CUFE generado antes de crear el QR''), [])
      else
        let qrContent = join [CHR 0x0A] [
              ''NumFac: '' @ Invoice.id' invoice,
              ''FecFac: '' @ issueDate invoice,
              ''HorFac: '' @ (case emissionTimestamp invoice of
                                None \<Rightarrow> []
                              | Some s \<Rightarrow> if s = [] then [] else toLocaleTimeString_esCO h s),
              ''NitFac: '' @ nit (companyInfo template),
              ''DocAdq: '' @ clientNit invoice,
              ''ValFac: '' @ toFixed h 2 (subtotal invoice),
              ''ValIva: '' @ toFixed h 2 (taxAmount invoice),
              ''ValOtroIm: 0.00'',
              ''ValTotalFac: '' @ toFixed h 2 (total' invoice),
              ''CUFE: '' @ the (Invoice.cufe invoice)]
        in case toDataURL qr qrContent of
             Inr qrDataURL \<Rightarrow> (Inr qrDataURL, [qrContent])
           | Inl e \<Rightarrow>
               (Inl (Error (''No se pudo generar el c'' @ o_acute @ ''digo QR de la factura'')),
                [qrContent]))"

definition generateInvoiceQRBuffer ::
  "host \<Rightarrow> QRCode \<Rightarrow> Invoice \<Rightarrow> PDFTemplate \<Rightarrow> (error + byte list) \<times> string list" where
  "generateInvoiceQRBuffer h qr invoice template =
     (if Invoice.cufe invoice = None \<or> Invoice.cufe invoice = Some []
      then (Inl (Error ''La factura debe tener un CUFE generado antes de crear el QR''), [])
      else
        let qrContent = join [CHR 0x0A] [
              ''NumFac: '' @ Invoice.id' invoice,
              ''FecFac: '' @ issueDate invoice,
              ''HorFac: '' @ (case emissionTimestamp invoice of
                                None \<Rightarrow> []
                              | Some s \<Rightarrow> if s = [] then [] else toLocaleTimeString_esCO h s),
              ''NitFac: '' @ nit (companyInfo template),
              ''DocAdq: '' @ clientNit invoice,
              ''ValFac: '' @ toFixed h 2 (subtotal invoice),
              ''ValIva: '' @ toFixed h 2 (taxAmount invoice),
              ''ValOtroIm: 0.00'',
              ''ValTotalFac: '' @ toFixed h 2 (total' invoice),
              ''CUFE: '' @ the (Invoice.cufe invoice)]
        in case toBuffer qr qrContent of
             Inr buffer \<Rightarrow> (Inr buffer, [qrContent])
           | Inl e \<Rightarrow>
               (Inl (Error (''No se pudo generar el c'' @ o_acute @ ''digo QR de la factura'')),
                [qrContent]))"

section \<open>hooks/useInvoiceEmission.ts\<close>

text \<open>
  \<open>emitInvoice\<close> reads and writes \<open>localStorage\<close>, shows toasts, sets the hook's state
  and calls four things that are not in the sources at hand, taken as parameters:
  \<open>validateInvoiceForEmission\<close>, \<open>generateFiscalFolio\<close>, the table \<open>defaultTemplates\<close> and
  the clock (\<open>new Date()\<close>). \<open>logPDFAction\<close> is not at hand either: the model records
  its calls and gives it no other effect.

  An item of \<open>localStorage\<close> is modelled by what the code gets from it: nothing (the key
  is absent, or holds the empty string), a text that \<open>JSON.parse\<close> or the first use of
  its value rejects with a message, or the parsed list. \<open>JSON.stringify\<close> followed by
  \<open>JSON.parse\<close> is taken to give the list back.
\<close>

datatype 'a item = NoItem | Throwing string | Parsed 'a

datatype storageKey = INVOICES | SHIPMENTS

datatype toast = ToastError string string | ToastWarning string string
  | ToastSuccess string string

record PDFLog =
  invoiceId :: string
  action :: string
  templateId :: "string option"
  error :: "string option"

record ValidationResult =
  isValid :: bool
  errors :: "string list"
  warnings :: "string list"

record FiscalFolio =
  id' :: string

record EmissionResult =
  success :: bool
  invoice :: "Invoice option"
  errors :: "string list option"
  warnings :: "string list option"

record deps =
  validateInvoiceForEmission :: "Invoice \<Rightarrow> ValidationResult"
  generateFiscalFolio :: "Invoice list \<Rightarrow> FiscalFolio"
  defaultTemplates :: "PDFTemplate list"
  newDate :: Date

record world =
  storedInvoices :: "Invoice list item"
  storedShipments :: "Shipment list item"
  setItemCalls :: "storageKey list"
  toasts :: "toast list"
  pdfLog :: "PDFLog list"
  isEmitting :: bool
  validationErrors :: "string list"
  validationWarnings :: "string list"

fun message :: "error \<Rightarrow> string" where
  "message (Error m) = m"
| "message (RangeError m) = m"
| "message (TypeError m) = m"
| "message (SyntaxError m) = m"

definition logPDFAction :: "PDFLog \<Rightarrow> world \<Rightarrow> world" where
  "logPDFAction entry w = w\<lparr>pdfLog := pdfLog w @ [entry]\<rparr>"

definition showToast :: "toast \<Rightarrow> world \<Rightarrow> world" where
  "showToast t w = w\<lparr>toasts := toasts w @ [t]\<rparr>"

function matchENV :: "string \<Rightarrow> string option" where
  \<comment> \<open>\<open>s.match(/ENV-\d+/)\<close>: the leftmost \<open>ENV-\<close> that a digit follows, with all the
      digits after it\<close>
  "matchENV s =
     (if s = [] then None
      else if take 4 s = ''ENV-'' \<and> takeWhile isDigit (drop 4 s) \<noteq> []
           then Some (''ENV-'' @ takeWhile isDigit (drop 4 s))
           else matchENV (tl s))"
  by pat_completeness auto
termination
  by (relation "measure length") auto

declare matchENV.simps [simp del]

definition quoted :: "string \<Rightarrow> string" where
  "quoted s = [CHR 0x22] @ s @ [CHR 0x22]"

definition selectTemplate :: "deps \<Rightarrow> Invoice \<Rightarrow> error + PDFTemplate" where
  \<comment> \<open>\<open>defaultTemplates.find(t => t.segment === invoice.clientSegment) || defaultTemplates[0]\<close>;
      on an empty table the value is \<open>undefined\<close>, and \<open>generateCUFE\<close> throws on reading
      its \<open>companyInfo\<close>\<close>
  "selectTemplate d invoice' =
     (case find (\<lambda>t. segment t = clientSegment invoice') (defaultTemplates d) of
        Some t \<Rightarrow> Inr t
      | None \<Rightarrow>
          (case defaultTemplates d of
             [] \<Rightarrow> Inl (TypeError ''Cannot read properties of undefined (reading 'companyInfo')'')
           | t # _ \<Rightarrow> Inr t))"

definition markShipments :: "Invoice \<Rightarrow> Shipment list \<Rightarrow> Shipment list" where
  "markShipments invoice' shipments =
     (let shipmentIds = map the (filter (\<lambda>m. m \<noteq> None)
                          (map (\<lambda>item. matchENV (descripcion item)) (items invoice')))
      in map (\<lambda>shipment. if Shipment.id' shipment \<in> set shipmentIds
                           then shipment\<lparr>estado := ''Facturado''\<rparr> else shipment) shipments)"

definition showWarnings :: "string list \<Rightarrow> world \<Rightarrow> world" where
  "showWarnings ws w =
     (if ws \<noteq> []
      then foldl (\<lambda>w' warning. showToast (ToastWarning ''Advertencia'' warning) w')
             (w\<lparr>validationWarnings := ws\<rparr>) ws
      else w)"

definition updateShipments :: "Invoice \<Rightarrow> world \<Rightarrow> error + world" where
  \<comment> \<open>step 7 of the source: the shipments named in the item descriptions\<close>
  "updateShipments invoice' w =
     (case storedShipments w of
        NoItem \<Rightarrow> Inr w
      | Throwing m \<Rightarrow> Inl (SyntaxError m)
      | Parsed shipments \<Rightarrow>
          Inr (w\<lparr>storedShipments := Parsed (markShipments invoice' shipments),
                 setItemCalls := setItemCalls w @ [SHIPMENTS]\<rparr>))"

definition emitValidated ::
  "host \<Rightarrow> deps \<Rightarrow> string \<Rightarrow> Invoice list \<Rightarrow> Invoice \<Rightarrow> ValidationResult \<Rightarrow> world
     \<Rightarrow> (error + EmissionResult) \<times> world" where
  \<comment> \<open>steps 3 to 9 of the source, after the validation has passed\<close>
  "emitValidated h d invId invoices invoice' validation w =
     (let fiscalFolio = generateFiscalFolio d invoices;
          w1 = logPDFAction \<lparr>invoiceId = Invoice.id' invoice',
                 action = ''generation_started'',
                 templateId = Some (''fiscal_folio_'' @ FiscalFolio.id' fiscalFolio),
                 error = None\<rparr> w
      in case selectTemplate d invoice' of
           Inl e \<Rightarrow> (Inl e, w1)
         | Inr template \<Rightarrow>
            (case generateCUFE h invoice' template (newDate d) of
               Inl e \<Rightarrow> (Inl e, w1)
             | Inr cufeData \<Rightarrow>
                (let updatedInvoice = invoice'\<lparr>Invoice.id' := FiscalFolio.id' fiscalFolio,
                       status := ''Emitida'',
                       Invoice.cufe := Some (CUFEData.cufe cufeData),
                       emissionTimestamp := Some (timestamp cufeData),
                       pdfGeneratedAt := None\<rparr>;
                     updatedInvoices =
                       map (\<lambda>i. if Invoice.id' i = invId then updatedInvoice else i) invoices;
                     w2 = w1\<lparr>storedInvoices := Parsed updatedInvoices,
                             setItemCalls := setItemCalls w1 @ [INVOICES]\<rparr>
                 in case updateShipments invoice' w2 of
                      Inl e \<Rightarrow> (Inl e, w2)
                    | Inr w3 \<Rightarrow>
                       (let w4 = showWarnings (ValidationResult.warnings validation) w3;
                            w5 = showToast (ToastSuccess ''Factura emitida exitosamente''
                                   (''Folio fiscal: '' @ FiscalFolio.id' fiscalFolio)) w4;
                            w6 = logPDFAction \<lparr>invoiceId = FiscalFolio.id' fiscalFolio,
                                   action = ''generation_success'',
                                   templateId =
                                     Some (''fiscal_folio_'' @ FiscalFolio.id' fiscalFolio),
                                   error = None\<rparr> w5
                        in (Inr \<lparr>success = True, invoice = Some updatedInvoice,
                                  errors = None,
                                  warnings = Some (ValidationResult.warnings validation)\<rparr>,
                            w6)))))"

definition emitSteps ::
  "host \<Rightarrow> deps \<Rightarrow> string \<Rightarrow> world \<Rightarrow> (error + EmissionResult) \<times> world" where
  \<comment> \<open>the \<open>try\<close> block: \<open>Inl\<close> is a thrown error, with the world as it was when thrown\<close>
  "emitSteps h d invId w =
     (case storedInvoices w of
        NoItem \<Rightarrow> (Inl (Error ''No se encontraron facturas''), w)
      | Throwing m \<Rightarrow> (Inl (SyntaxError m), w)
      | Parsed invoices \<Rightarrow>
         (case find (\<lambda>i. Invoice.id' i = invId) invoices of
            None \<Rightarrow> (Inl (Error ''Factura no encontrada''), w)
          | Some invoice' \<Rightarrow>
             if status invoice' \<noteq> ''Borrador''
             then (Inl (Error (''Solo se pueden emitir facturas en estado '' @ quoted ''Borrador'')),
                   w)
             else
               (let validation = validateInvoiceForEmission d invoice'
                in if \<not> isValid validation
                   then (Inr \<lparr>success = False, invoice = None,
                              errors = Some (ValidationResult.errors validation),
                              warnings = Some (ValidationResult.warnings validation)\<rparr>,
                         showToast (ToastError (''Validaci'' @ o_acute @ ''n fallida'')
                                     (''Se encontraron ''
                                        @ natToString (length (ValidationResult.errors validation))
                                        @ '' errores que impiden la emisi'' @ o_acute @ ''n.''))
                           (w\<lparr>validationErrors := ValidationResult.errors validation,
                              validationWarnings := ValidationResult.warnings validation\<rparr>))
                   else emitValidated h d invId invoices invoice' validation w)))"

definition emitInvoice :: "host \<Rightarrow> deps \<Rightarrow> string \<Rightarrow> world \<Rightarrow> EmissionResult \<times> world" where
  \<comment> \<open>the state resets, the \<open>try\<close> block, the \<open>catch\<close> block and \<open>finally\<close>\<close>
  "emitInvoice h d invId w =
     (let w0 = w\<lparr>isEmitting := True, validationErrors := [], validationWarnings := []\<rparr>
      in case emitSteps h d invId w0 of
           (Inr r, w1) \<Rightarrow> (r, w1\<lparr>isEmitting := False\<rparr>)
         | (Inl e, w1) \<Rightarrow>
             let errorMessage = message e;
                 w2 = showToast (ToastError ''Error al emitir factura'' errorMessage) w1;
                 w3 = logPDFAction \<lparr>invoiceId = invId, action = ''generation_error'',
                        templateId = None, error = Some errorMessage\<rparr> w2
             in (\<lparr>success = False, invoice = None, errors = Some [errorMessage],
                  warnings = None\<rparr>,
                 w3\<lparr>isEmitting := False\<rparr>))"

section \<open>components/PasswordRecovery.tsx\<close>

text \<open>
  The two submit handlers of the dialog, on the component's state. What a handler does
  to the outside is recorded as a list of effects; \<open>Request\<close> is a call to a server,
  which a browser component could make.
\<close>

datatype step = EmailStep | CodeStep

datatype effect =
    Timeout nat
  | Toast string string bool
  | OnOpenChange bool
  | ResetEmailForm
  | ResetCodeForm
  | Request string

record recovery =
  step :: step
  isSending :: bool
  isVerifying :: bool
  email :: string
  effects :: "effect list"

definition a_acute :: string where
  "a_acute = [CHR 0xE1]"

definition i_acute :: string where
  "i_acute = [CHR 0xED]"

definition n_tilde :: string where
  "n_tilde = [CHR 0xF1]"

definition perform :: "effect \<Rightarrow> recovery \<Rightarrow> recovery" where
  "perform e s = s\<lparr>effects := effects s @ [e]\<rparr>"

definition handleClose :: "recovery \<Rightarrow> recovery" where
  "handleClose s =
     perform (OnOpenChange False)
       (perform ResetCodeForm
          (perform ResetEmailForm (s\<lparr>step := EmailStep, email := []\<rparr>)))"

definition onSubmitEmail :: "string \<Rightarrow> recovery \<Rightarrow> recovery" where
  "onSubmitEmail dataEmail s =
     (let s1 = s\<lparr>isSending := True\<rparr>;
          s2 = perform (Timeout 1500) s1;
          s3 = s2\<lparr>email := dataEmail, step := CodeStep\<rparr>;
          s4 = perform (Toast (''C'' @ o_acute @ ''digo enviado'')
                 (''Se ha enviado un c'' @ o_acute @ ''digo de recuperaci'' @ o_acute @ ''n a ''
                    @ dataEmail) False) s3
      in s4\<lparr>isSending := False\<rparr>)"

definition onSubmitCode :: "string \<Rightarrow> recovery \<Rightarrow> recovery" where
  "onSubmitCode dataCode s =
     (let s1 = s\<lparr>isVerifying := True\<rparr>;
          s2 = perform (Timeout 1000) s1;
          s3 = (if dataCode = ''123456''
                then handleClose
                       (perform (Toast (''C'' @ o_acute @ ''digo verificado'')
                          (''Tu contrase'' @ n_tilde @ ''a ha sido restablecida. Puedes iniciar sesi''
                             @ o_acute @ ''n con cualquier contrase'' @ n_tilde @ ''a.'') False) s2)
                else perform (Toast (''C'' @ o_acute @ ''digo incorrecto'')
                       (''El c'' @ o_acute @ ''digo ingresado no es v'' @ a_acute
                          @ ''lido. Intenta nuevamente.'') True) s2)
      in s3\<lparr>isVerifying := False\<rparr>)"

definition codeSchema :: "string \<Rightarrow> bool" where
  \<comment> \<open>\<open>z.string().min(6, ...).max(6, ...)\<close>\<close>
  "codeSchema c = (6 \<le> length c \<and> length c \<le> 6)"

definition submitCodeForm :: "string \<Rightarrow> recovery \<Rightarrow> recovery" where
  \<comment> \<open>\<open>codeForm.handleSubmit(onSubmitCode)\<close>: the handler runs when the schema accepts\<close>
  "submitCodeForm c s = (if codeSchema c then onSubmitCode c s else s)"

section \<open>Reference definitions\<close>

text \<open>
  Definitions that follow the words of the specification; the theorems below compare
  the code with them.
\<close>

fun zeroPadded :: "nat \<Rightarrow> nat \<Rightarrow> string" where
  "zeroPadded 0 n = []"
| "zeroPadded (Suc k) n = zeroPadded k (n div 10) @ [digitChar (n mod 10)]"

definition YYYYMMDDHHmmss :: "host \<Rightarrow> int \<Rightarrow> string" where
  "YYYYMMDDHHmmss h lt =
     numberToString h (Finite (of_int (YearFromTime lt)))
       @ zeroPadded 2 (nat (MonthFromTime lt + 1)) @ zeroPadded 2 (nat (DateFromTime lt))
       @ zeroPadded 2 (nat (HourFromTime lt)) @ zeroPadded 2 (nat (MinFromTime lt))
       @ zeroPadded 2 (nat (SecFromTime lt))"

definition hexDigitsUpper :: string where
  "hexDigitsUpper = ''0123456789ABCDEF''"

definition hexUpper :: "byte list \<Rightarrow> string" where
  "hexUpper bs =
     concat (map (\<lambda>b. [hexDigitsUpper ! (unat b div 16), hexDigitsUpper ! (unat b mod 16)]) bs)"

definition withoutDotsDashes :: "string \<Rightarrow> string" where
  "withoutDotsDashes s = filter (\<lambda>c. c \<noteq> CHR ''.'' \<and> c \<noteq> CHR ''-'') s"

section \<open>Example inputs\<close>

definition exampleHost :: host where
  "exampleHost = \<lparr>localTZA = (\<lambda>t. - 18000000), numberToStringOther = (\<lambda>q. ''1e+21''),
                   toLocaleTimeString_esCO = (\<lambda>s. ''1:00:00'')\<rparr>"

definition exampleInvoice :: Invoice where
  "exampleInvoice = \<lparr>Invoice.id' = ''FAC-001'', status = ''Borrador'', issueDate = ''2025-11-02'',
      emissionTimestamp = None, clientNit = ''800197268'', clientSegment = ''Corporativo'',
      subtotal = Finite 100000, taxAmount = Finite 19000, total' = Finite 119000, cufe = None,
      items = [\<lparr>descripcion = ''Flete ENV-1042 Bogota''\<rparr>], pdfGeneratedAt = None\<rparr>"

definition exampleTemplate :: PDFTemplate where
  "exampleTemplate = \<lparr>segment = ''Corporativo'', companyInfo = \<lparr>nit = ''900123456''\<rparr>,
      technicalKey = None\<rparr>"

section \<open>Properties of the model\<close>

lemma join_empty: "join [] xs = concat xs"
  by (induction "[] :: string" xs rule: join.induct) simp_all

lemma digitChar_0: "digitChar 0 = CHR ''0''"
  by (simp add: digitChar_def)

lemma digitChar_isDigit: "d < 10 \<Longrightarrow> isDigit (digitChar d)"
proof -
  assume "d < 10"
  then have "d \<in> {0,1,2,3,4,5,6,7,8,9}" by auto
  then show ?thesis by (auto simp: digitChar_def isDigit_def)
qed

lemma natToString_small: "n < 10 \<Longrightarrow> natToString n = [digitChar n]"
  by (simp add: natToString_def natToStringRadix.simps)

lemma natToString_big: "10 \<le> n \<Longrightarrow> natToString n = natToString (n div 10) @ [digitChar (n mod 10)]"
  by (subst natToString_def, subst natToStringRadix.simps) (simp add: natToString_def)

lemma padStart_snoc: "padStart (Suc k) c (xs @ [d]) = padStart k c xs @ [d]"
  by (simp add: padStart_def)

lemma zeroPadded_0: "zeroPadded k 0 = replicate k (CHR ''0'')"
  by (induction k) (simp_all add: digitChar_0 replicate_append_same)

lemma padStart_natToString_Suc:
  "n < 10 ^ Suc k \<Longrightarrow> padStart (Suc k) (CHR ''0'') (natToString n) = zeroPadded (Suc k) n"
proof (induction k arbitrary: n)
  case 0
  then show ?case by (simp add: natToString_small padStart_def)
next
  case (Suc k)
  show ?case
  proof (cases "n < 10")
    case True
    then show ?thesis
      by (simp add: natToString_small padStart_def zeroPadded_0 replicate_append_same)
  next
    case False
    then have big: "10 \<le> n" by simp
    from Suc.prems have "n div 10 < 10 ^ Suc k"
      by (simp add: less_mult_imp_div_less mult.commute)
    then have "padStart (Suc k) (CHR ''0'') (natToString (n div 10)) = zeroPadded (Suc k) (n div 10)"
      by (rule Suc.IH)
    then show ?thesis
      by (simp add: natToString_big [OF big] padStart_snoc)
  qed
qed

lemma padStart_natToString:
  "0 < k \<Longrightarrow> n < 10 ^ k \<Longrightarrow> padStart k (CHR ''0'') (natToString n) = zeroPadded k n"
  using padStart_natToString_Suc [of n "k - 1"] by simp

lemma length_zeroPadded: "length (zeroPadded k n) = k"
  by (induction k arbitrary: n) simp_all

lemma zeroPadded_digits: "list_all isDigit (zeroPadded k n)"
  by (induction k arbitrary: n) (simp_all add: digitChar_isDigit)

lemma numberToString_int:
  assumes "\<bar>i\<bar> < 10 ^ 21"
  shows "numberToString h (Finite (of_int i)) = intToString i"
proof -
  have "rat_of_int \<bar>i\<bar> < rat_of_int (10 ^ 21)"
    using assms by (simp only: of_int_less_iff)
  then have "\<bar>rat_of_int i\<bar> < 10 ^ 21" by simp
  then show ?thesis by simp
qed


lemma div_succ: "0 < b \<Longrightarrow> (a + 1) div b = a div b + (if (a + 1) mod b = 0 then 1 else 0)" for a b :: int
proof -
  assume b: "0 < b"
  have m: "0 \<le> a mod b \<and> a mod b < b" using b by simp
  have e: "a = a mod b + b * (a div b)" by simp
  show ?thesis
  proof (cases "a mod b = b - 1")
    case True
    have "a + 1 = b * (a div b + 1)"
      using e True by (simp add: algebra_simps)
    then have "(a + 1) div b = a div b + 1 \<and> (a + 1) mod b = 0"
      using b by simp
    then show ?thesis by simp
  next
    case False
    then have lt: "a mod b + 1 < b" and ge: "0 \<le> a mod b + 1" using m by linarith+
    have s: "a + 1 = (a mod b + 1) + b * (a div b)"
      using e by linarith
    have "(a + 1) div b = a div b + (a mod b + 1) div b"
      by (subst s) (use b in \<open>simp only: div_mult_self2 [of b] add.commute\<close>)
    then have d: "(a + 1) div b = a div b"
      using lt ge by (simp add: div_pos_pos_trivial)
    have "(a + 1) mod b = (a mod b + 1) mod b"
      by (subst s) (simp only: mod_mult_self2)
    then have m1: "(a + 1) mod b = a mod b + 1"
      using lt ge by (simp add: mod_pos_pos_trivial)
    from m1 m have "(a + 1) mod b \<noteq> 0" by linarith
    with d show ?thesis by simp
  qed
qed

lemma div_int_bounds: "0 < b \<Longrightarrow> b * (a div b) \<le> a \<and> a < b * (a div b) + (b::int)"
  by (metis mod_mult_div_eq mult_div_mod_eq pos_mod_bound pos_mod_sign add_less_cancel_left le_add_same_cancel2)

lemma mod_shift: "(y + b * c) mod b = y mod b" for y b c :: int
  by (rule mod_mult_self2)

lemma DayFromYear_step: "DayFromYear (y + 1) = DayFromYear y + DaysInYear y"
proof -
  have "(y - 1969 + 1) mod 4 = (y + 4 * (- 492)) mod 4" by simp
  then have m4: "(y - 1969 + 1) mod 4 = y mod 4" by (simp only: mod_shift)
  have "(y - 1901 + 1) mod 100 = (y + 100 * (- 19)) mod 100" by simp
  then have m100: "(y - 1901 + 1) mod 100 = y mod 100" by (simp only: mod_shift)
  have "(y - 1601 + 1) mod 400 = (y + 400 * (- 4)) mod 400" by simp
  then have m400: "(y - 1601 + 1) mod 400 = y mod 400" by (simp only: mod_shift)
  have a: "(y + 1 - 1969) div 4 = (y - 1969) div 4 + (if y mod 4 = 0 then 1 else 0)"
    using div_succ [of 4 "y - 1969"] m4 by (simp add: algebra_simps)
  have b: "(y + 1 - 1901) div 100 = (y - 1901) div 100 + (if y mod 100 = 0 then 1 else 0)"
    using div_succ [of 100 "y - 1901"] m100 by (simp add: algebra_simps)
  have c: "(y + 1 - 1601) div 400 = (y - 1601) div 400 + (if y mod 400 = 0 then 1 else 0)"
    using div_succ [of 400 "y - 1601"] m400 by (simp add: algebra_simps)
  have d1: "y mod 400 = 0 \<Longrightarrow> y mod 100 = 0"
  proof -
    assume "y mod 400 = 0"
    then have "400 dvd y" by (simp add: dvd_eq_mod_eq_0)
    moreover have "(100::int) dvd 400" by simp
    ultimately have "100 dvd y" by (metis dvd_trans)
    then show "y mod 100 = 0" by (simp add: dvd_eq_mod_eq_0)
  qed
  have d2: "y mod 100 = 0 \<Longrightarrow> y mod 4 = 0"
    by presburger
  show ?thesis
    unfolding DayFromYear_def DaysInYear_def a b c using d1 d2 by auto
qed

lemma DayFromYear_bounds:
  "146097 * (y - 1970) - 800 \<le> 400 * DayFromYear y \<and>
   400 * DayFromYear y \<le> 146097 * (y - 1970) + 800"
proof -
  define q1 q2 q3 where "q1 = (y - 1969) div 4" and "q2 = (y - 1901) div 100"
    and "q3 = (y - 1601) div 400"
  have a: "4 * q1 \<le> y - 1969 \<and> y - 1969 < 4 * q1 + 4"
    unfolding q1_def by (rule div_int_bounds) simp
  have b: "100 * q2 \<le> y - 1901 \<and> y - 1901 < 100 * q2 + 100"
    unfolding q2_def by (rule div_int_bounds) simp
  have c: "400 * q3 \<le> y - 1601 \<and> y - 1601 < 400 * q3 + 400"
    unfolding q3_def by (rule div_int_bounds) simp
  have "DayFromYear y = 365 * (y - 1970) + q1 - q2 + q3"
    by (simp add: DayFromYear_def q1_def q2_def q3_def)
  then show ?thesis
    using a b c by auto
qed

lemma YearFromTime_spec:
  "DayFromYear (YearFromTime t) \<le> Day t \<and> Day t < DayFromYear (YearFromTime t + 1)"
proof -
  define d where "d = Day t"
  define q where "q = (d * 400) div 146097"
  define y0 where "y0 = 1970 + q"
  have q: "146097 * q \<le> d * 400 \<and> d * 400 < 146097 * q + 146097"
    unfolding q_def by (rule div_int_bounds) simp
  have y: "YearFromTime t = (if d < DayFromYear y0 then y0 - 1
         else if DayFromYear (y0 + 1) \<le> d then y0 + 1 else y0)"
    by (simp add: YearFromTime_def d_def y0_def q_def Let_def)
  show ?thesis
  proof (cases "d < DayFromYear y0")
    case True
    have "DayFromYear (y0 - 1) \<le> d"
      using DayFromYear_bounds [of "y0 - 1"] q unfolding y0_def by auto
    with True y show ?thesis by (simp add: d_def [symmetric])
  next
    case False
    show ?thesis
    proof (cases "DayFromYear (y0 + 1) \<le> d")
      case True
      have "d < DayFromYear (y0 + 1 + 1)"
        using DayFromYear_bounds [of "y0 + 1 + 1"] q unfolding y0_def by auto
      with True False y show ?thesis by (simp add: d_def [symmetric])
    next
      case F2: False
      with False y show ?thesis by (simp add: d_def [symmetric])
    qed
  qed
qed

lemma DayWithinYear_bounds:
  "0 \<le> DayWithinYear t \<and> DayWithinYear t < 365 + InLeapYear t"
proof -
  have "DaysInYear (YearFromTime t) = 365 + InLeapYear t"
    by (simp add: InLeapYear_def DaysInYear_def)
  then show ?thesis
    using YearFromTime_spec [of t] DayFromYear_step [of "YearFromTime t"]
    by (simp add: DayWithinYear_def)
qed

lemma InLeapYear_cases: "InLeapYear t = 0 \<or> InLeapYear t = 1"
  by (simp add: InLeapYear_def)

lemma MonthFromTime_range: "0 \<le> MonthFromTime t \<and> MonthFromTime t \<le> 11"
  by (simp add: MonthFromTime_def Let_def)

lemma DateFromTime_range: "1 \<le> DateFromTime t \<and> DateFromTime t \<le> 31"
proof -
  define d l where "d = DayWithinYear t" and "l = InLeapYear t"
  have b: "0 \<le> d" "d < 365 + l" and l: "l = 0 \<or> l = 1"
    using DayWithinYear_bounds [of t] InLeapYear_cases [of t] by (simp_all add: d_def l_def)
  have m: "MonthFromTime t =
     (if d < 31 then 0 else if d < 59 + l then 1 else if d < 90 + l then 2
         else if d < 120 + l then 3 else if d < 151 + l then 4 else if d < 181 + l then 5
         else if d < 212 + l then 6 else if d < 243 + l then 7 else if d < 273 + l then 8
         else if d < 304 + l then 9 else if d < 334 + l then 10 else 11)"
    by (simp add: MonthFromTime_def Let_def d_def l_def)
  have "DateFromTime t =
     (let m = MonthFromTime t
      in if m = 0 then d + 1 else if m = 1 then d - 30 else if m = 2 then d - 58 - l
         else if m = 3 then d - 89 - l else if m = 4 then d - 119 - l
         else if m = 5 then d - 150 - l else if m = 6 then d - 180 - l
         else if m = 7 then d - 211 - l else if m = 8 then d - 242 - l
         else if m = 9 then d - 272 - l else if m = 10 then d - 303 - l else d - 333 - l)"
    by (simp add: DateFromTime_def Let_def d_def l_def)
  then show ?thesis
    unfolding m Let_def using b l by (auto split: if_splits)
qed

lemma HourFromTime_range: "0 \<le> HourFromTime t \<and> HourFromTime t \<le> 23"
  by (simp add: HourFromTime_def) 

lemma MinFromTime_range: "0 \<le> MinFromTime t \<and> MinFromTime t \<le> 59"
  by (simp add: MinFromTime_def)

lemma SecFromTime_range: "0 \<le> SecFromTime t \<and> SecFromTime t \<le> 59"
  by (simp add: SecFromTime_def)

lemma pad2_number:
  assumes "0 \<le> v" "v < 100"
  shows "padStart 2 (CHR ''0'') (numberToString h (Finite (of_int v))) = zeroPadded 2 (nat v)"
proof -
  have "\<bar>v\<bar> < 10 ^ 21" using assms by simp
  then have "numberToString h (Finite (of_int v)) = natToString (nat v)"
    using assms by (simp add: numberToString_int intToString_def)
  moreover have "nat v < 10 ^ 2" using assms by simp
  ultimately show ?thesis
    by (simp only: padStart_natToString [of 2 "nat v"])
qed

lemma fechaHora_TimeValue:
  "fechaHora h (TimeValue t) = YYYYMMDDHHmmss h (LocalTime h t)"
proof -
  define lt where "lt = LocalTime h t"
  have mo: "numAdd (getMonth h (TimeValue t)) (Finite 1) = Finite (of_int (MonthFromTime lt + 1))"
    by (simp add: lt_def)
  have "padStart 2 (CHR ''0'') (numberToString h (Finite (of_int (MonthFromTime lt + 1))))
          = zeroPadded 2 (nat (MonthFromTime lt + 1))"
    using MonthFromTime_range [of lt] by (intro pad2_number) auto
  moreover have "padStart 2 (CHR ''0'') (numberToString h (Finite (of_int (DateFromTime lt))))
          = zeroPadded 2 (nat (DateFromTime lt))"
    using DateFromTime_range [of lt] by (intro pad2_number) auto
  moreover have "padStart 2 (CHR ''0'') (numberToString h (Finite (of_int (HourFromTime lt))))
          = zeroPadded 2 (nat (HourFromTime lt))"
    using HourFromTime_range [of lt] by (intro pad2_number) auto
  moreover have "padStart 2 (CHR ''0'') (numberToString h (Finite (of_int (MinFromTime lt))))
          = zeroPadded 2 (nat (MinFromTime lt))"
    using MinFromTime_range [of lt] by (intro pad2_number) auto
  moreover have "padStart 2 (CHR ''0'') (numberToString h (Finite (of_int (SecFromTime lt))))
          = zeroPadded 2 (nat (SecFromTime lt))"
    using SecFromTime_range [of lt] by (intro pad2_number) auto
  ultimately show ?thesis
    unfolding fechaHora_def YYYYMMDDHHmmss_def Let_def mo lt_def [symmetric]
    by (simp only: getFullYear.simps getDate.simps getHours.simps getMinutes.simps
          getSeconds.simps lt_def [symmetric])
qed

lemma digitChar_upper_table:
  "map (\<lambda>k. upperChar (digitChar k)) [0..<16] = map (\<lambda>k. hexDigitsUpper ! k) [0..<16]"
  by code_simp

lemma digitChar_upper: "k < 16 \<Longrightarrow> upperChar (digitChar k) = hexDigitsUpper ! k"
  using arg_cong [OF digitChar_upper_table, of "\<lambda>xs. xs ! k"] by simp

lemma hexByte_digits: "hexByte b = [digitChar (unat b div 16), digitChar (unat b mod 16)]"
proof -
  have lt: "unat b < 256" using unsigned_less [of b, where ?'a = nat] by simp
  show ?thesis
  proof (cases "unat b < 16")
    case True
    then show ?thesis
      by (simp add: hexByte_def natToStringRadix.simps padStart_def digitChar_0)
  next
    case False
    moreover from lt have "unat b div 16 < 16" by simp
    ultimately show ?thesis
      by (simp add: hexByte_def natToStringRadix.simps [of 16 "unat b"]
            natToStringRadix.simps [of 16 "unat b div 16"] padStart_def)
  qed
qed

lemma toUpperCase_hex: "toUpperCase (concat (map hexByte bs)) = hexUpper bs"
proof (induction bs)
  case Nil
  then show ?case by (simp add: toUpperCase_def hexUpper_def)
next
  case (Cons b bs)
  have "unat b < 256" using unsigned_less [of b, where ?'a = nat] by simp
  then have "unat b div 16 < 16" "unat b mod 16 < 16" by simp_all
  then have "map upperChar (hexByte b) =
      [hexDigitsUpper ! (unat b div 16), hexDigitsUpper ! (unat b mod 16)]"
    by (simp only: hexByte_digits list.map digitChar_upper)
  with Cons show ?case
    by (simp add: toUpperCase_def hexUpper_def)
qed

lemma length_sha384: "length (sha384 m) = 48"
  by (simp add: sha384_def Let_def bytesOfWord_def)

lemma length_hexUpper: "length (hexUpper bs) = 2 * length bs"
  by (induction bs) (simp_all add: hexUpper_def)

lemma hexUpper_chars: "set (hexUpper bs) \<subseteq> set hexDigitsUpper"
proof -
  have len: "length hexDigitsUpper = 16" by (simp add: hexDigitsUpper_def)
  have hi: "hexDigitsUpper ! (unat b div 16) \<in> set hexDigitsUpper" for b :: byte
  proof -
    have "unat b < 256" using unsigned_less [of b, where ?'a = nat] by simp
    then have "unat b div 16 < length hexDigitsUpper" by (simp add: len)
    then show ?thesis by (rule nth_mem)
  qed
  have lo: "hexDigitsUpper ! (unat b mod 16) \<in> set hexDigitsUpper" for b :: byte
    by (rule nth_mem) (simp add: len)
  show ?thesis
    unfolding hexUpper_def using hi lo by auto
qed

lemma generateCUFE_TimeValue:
  "generateCUFE h invoice' template (TimeValue t) =
     Inr \<lparr>CUFEData.cufe = hexUpper (sha384 (utf8 (concat [
             Invoice.id' invoice',
             YYYYMMDDHHmmss h (LocalTime h t),
             padStart 15 (CHR ''0'') (numberToString h (Math_round (total' invoice'))),
             ''01'',
             padStart 15 (CHR ''0'') (numberToString h (Math_round (taxAmount invoice'))),
             ''04'',
             ''000000000000000'',
             ''03'',
             ''000000000000000'',
             padStart 15 (CHR ''0'') (numberToString h (Math_round (total' invoice'))),
             replaceFinalDigit (replaceDotsDashes (nit (companyInfo template))),
             ''31'',
             replaceFinalDigit (replaceDotsDashes (clientNit invoice')),
             (case technicalKey template of
                None \<Rightarrow> ''CourierSync2025ElectronicInvoicing''
              | Some k \<Rightarrow> if k = [] then ''CourierSync2025ElectronicInvoicing'' else k)]))),
           timestamp = isoString t\<rparr>"
  unfolding generateCUFE_def Let_def datosParaCUFE_def join_empty toUpperCase_hex
    fechaHora_TimeValue valorTotal_def valorImpuesto_def nitEmisor_def nitAdquirente_def
    claveTecnica_def
  by simp

lemma replaceDotsDashes_filter: "replaceDotsDashes s = withoutDotsDashes s"
  by (induction s) (simp_all add: withoutDotsDashes_def)

lemma replaceFinalDigit_butlast:
  "replaceFinalDigit s = (if s \<noteq> [] \<and> isDigit (last s) then butlast s else s)"
  by (induction s rule: replaceFinalDigit.induct) simp_all

lemma withoutDotsDashes_digits: "list_all isDigit s \<Longrightarrow> withoutDotsDashes s = s"
  by (induction s) (auto simp: withoutDotsDashes_def isDigit_def)

lemma normalize_digits_only:
  assumes "s \<noteq> []" "list_all isDigit s"
  shows "replaceFinalDigit (replaceDotsDashes s) = butlast s"
proof -
  have "isDigit (last s)" using assms by (simp add: list_all_iff)
  then show ?thesis
    using assms by (simp add: replaceDotsDashes_filter withoutDotsDashes_digits replaceFinalDigit_butlast)
qed

lemma numberToString_host:
  "numberToStringOther h1 = numberToStringOther h2 \<Longrightarrow> numberToString h1 x = numberToString h2 x"
  by (cases x) simp_all

section \<open>The claims\<close>

text \<open>C9\<close>
theorem nit_final_digit_dropped:
  "nitEmisor template =
     (let s = withoutDotsDashes (nit (companyInfo template))
      in if s \<noteq> [] \<and> isDigit (last s) then butlast s else s)
   \<and> nitAdquirente invoice' =
     (let s = withoutDotsDashes (clientNit invoice')
      in if s \<noteq> [] \<and> isDigit (last s) then butlast s else s)
   \<and> (nit (companyInfo template) \<noteq> [] \<and> list_all isDigit (nit (companyInfo template))
        \<longrightarrow> nitEmisor template = butlast (nit (companyInfo template)))
   \<and> (clientNit invoice' \<noteq> [] \<and> list_all isDigit (clientNit invoice')
        \<longrightarrow> nitAdquirente invoice' = butlast (clientNit invoice'))
   \<and> datosParaCUFE h invoice' template emissionTs =
       (Invoice.id' invoice' @ fechaHora h emissionTs @ valorTotal h invoice' @ ''01''
          @ valorImpuesto h invoice' @ ''04'' @ ''000000000000000'' @ ''03''
          @ ''000000000000000'' @ valorTotal h invoice')
       @ nitEmisor template @ ''31'' @ nitAdquirente invoice' @ claveTecnica template"
proof (intro conjI impI)
  show "nitEmisor template =
     (let s = withoutDotsDashes (nit (companyInfo template))
      in if s \<noteq> [] \<and> isDigit (last s) then butlast s else s)"
    by (simp add: nitEmisor_def replaceDotsDashes_filter replaceFinalDigit_butlast Let_def)
  show "nitAdquirente invoice' =
     (let s = withoutDotsDashes (clientNit invoice')
      in if s \<noteq> [] \<and> isDigit (last s) then butlast s else s)"
    by (simp add: nitAdquirente_def replaceDotsDashes_filter replaceFinalDigit_butlast Let_def)
  show "nitEmisor template = butlast (nit (companyInfo template))"
    if "nit (companyInfo template) \<noteq> [] \<and> list_all isDigit (nit (companyInfo template))"
    using that by (simp add: nitEmisor_def normalize_digits_only)
  show "nitAdquirente invoice' = butlast (clientNit invoice')"
    if "clientNit invoice' \<noteq> [] \<and> list_all isDigit (clientNit invoice')"
    using that by (simp add: nitAdquirente_def normalize_digits_only)
  show "datosParaCUFE h invoice' template emissionTs =
       (Invoice.id' invoice' @ fechaHora h emissionTs @ valorTotal h invoice' @ ''01''
          @ valorImpuesto h invoice' @ ''04'' @ ''000000000000000'' @ ''03''
          @ ''000000000000000'' @ valorTotal h invoice')
       @ nitEmisor template @ ''31'' @ nitAdquirente invoice' @ claveTecnica template"
    by (simp add: datosParaCUFE_def join_empty)
qed

theorem nit_final_digit_dropped_witness:
  "nitEmisor exampleTemplate = ''90012345'' \<and> nitAdquirente exampleInvoice = ''80019726''"
proof -
  have e: "nit (companyInfo exampleTemplate) \<noteq> []
      \<and> list_all isDigit (nit (companyInfo exampleTemplate))"
    by (simp add: exampleTemplate_def isDigit_def)
  have a: "clientNit exampleInvoice \<noteq> [] \<and> list_all isDigit (clientNit exampleInvoice)"
    by (simp add: exampleInvoice_def isDigit_def)
  from nit_final_digit_dropped [of exampleTemplate exampleInvoice exampleHost InvalidDate] e a
  have "nitEmisor exampleTemplate = butlast (nit (companyInfo exampleTemplate))"
    and "nitAdquirente exampleInvoice = butlast (clientNit exampleInvoice)"
    by blast+
  then show ?thesis
    by (simp add: exampleTemplate_def exampleInvoice_def)
qed

text \<open>C8\<close>
theorem cufe_96_uppercase_hex:
  "(case generateCUFE h invoice' template emissionTs of
      Inl e \<Rightarrow> emissionTs = InvalidDate
    | Inr r \<Rightarrow> length (CUFEData.cufe r) = 96
               \<and> set (CUFEData.cufe r) \<subseteq> set ''0123456789ABCDEF'')"
proof (cases emissionTs)
  case (TimeValue t)
  show ?thesis
    unfolding TimeValue generateCUFE_TimeValue
    using hexUpper_chars by (simp add: length_hexUpper length_sha384 hexDigitsUpper_def)
next
  case InvalidDate
  then show ?thesis by (simp add: generateCUFE_def)
qed

text \<open>C1\<close>
theorem generateCUFE_invalid_date_throws:
  "generateCUFE exampleHost exampleInvoice exampleTemplate InvalidDate
     = Inl (RangeError ''Invalid time value'')"
  by (simp add: generateCUFE_def)

text \<open>C4\<close>
theorem generateCUFE_same_zone_same_result:
  assumes "\<forall>t. emissionTs = TimeValue t \<longrightarrow> localTZA h1 t = localTZA h2 t"
    and "numberToStringOther h1 = numberToStringOther h2"
  shows "generateCUFE h1 invoice' template emissionTs = generateCUFE h2 invoice' template emissionTs"
proof (cases emissionTs)
  case (TimeValue t)
  with assms(1) have lt: "LocalTime h1 t = LocalTime h2 t" by (simp add: LocalTime_def)
  have n: "numberToString h1 x = numberToString h2 x" for x
    by (rule numberToString_host [OF assms(2)])
  show ?thesis
    by (simp only: TimeValue generateCUFE_TimeValue YYYYMMDDHHmmss_def n lt)
next
  case InvalidDate
  then show ?thesis by (simp add: generateCUFE_def)
qed

end
